theory Spec2Isabelle
  imports Main "HOL-Library.Word"
begin

unbundle bit_operations_syntax

section \<open>The xframe logger (vendor/xframe/log/logext.go)\<close>

subsection \<open>Constants\<close>

text \<open>The output flags are the bits \<open>1 << iota\<close>; Go's \<open>int\<close> values that are only
  compared or masked are modelled as \<open>int\<close>.\<close>

definition Ldate :: int where "Ldate = 1"
definition Ltime :: int where "Ltime = 2"
definition Lmicroseconds :: int where "Lmicroseconds = 4"
definition Llongfile :: int where "Llongfile = 8"
definition Lshortfile :: int where "Lshortfile = 16"
definition Lmodule :: int where "Lmodule = 32"
definition Llevel :: int where "Llevel = 64"
definition LstdFlags :: int where "LstdFlags = Ldate OR Ltime OR Lmicroseconds"
definition Ldefault :: int where "Ldefault = Lmodule OR Llevel OR Lshortfile OR LstdFlags"

definition Ldebug :: int where "Ldebug = 1"
definition Linfo :: int where "Linfo = 2"
definition Lwarn :: int where "Lwarn = 3"
definition Lerror :: int where "Lerror = 4"
definition Lpanic :: int where "Lpanic = 5"
definition Lfatal :: int where "Lfatal = 6"

definition BUFFER_SIZE :: nat where "BUFFER_SIZE = 1000"

definition levels :: "string list" where
  "levels = ['''', ''[DEBUG]'', ''[INFO]'', ''[WARN]'', ''[ERROR]'', ''[PANIC]'', ''[FATAL]'']"

definition level_flags :: "string list" where
  "level_flags = ['''', ''debug'', ''info'', ''warn'', ''error'', ''panic'', ''fatal'']"

text \<open>The length of the array type \<open>[6]int64\<close> of the field \<open>levelStats\<close>.\<close>

definition levelStats_len :: nat where "levelStats_len = 6"

subsection \<open>Control outcomes\<close>

text \<open>A Go call either returns, panics (a run-time index fault or an explicit
  \<open>panic(s)\<close>), ends the process with \<open>os.Exit\<close>, or waits on a channel send that
  cannot proceed yet (the value still to be sent is kept).\<close>

datatype panic_value = IndexOutOfRange int nat | PanicString string

datatype 'a outcome = Returned 'a | Panics panic_value | Exits int | Blocks string

type_synonym error = string

text \<open>Slice indexing with Go's bounds check.\<close>

definition index_go :: "'a list \<Rightarrow> int \<Rightarrow> panic_value + 'a" where
  "index_go xs i =
     (if 0 \<le> i \<and> i < int (length xs) then Inr (xs ! nat i)
      else Inl (IndexOutOfRange i (length xs)))"

subsection \<open>The parts of the Go library the logger calls\<close>

text \<open>\<open>fmt\<close> verbs \<open>%d\<close>, \<open>%02d\<close> and \<open>%06d\<close> on the values the logger formats: the
  year and the line number are signed, the other fields of a time are not negative.\<close>

definition digit_char :: "nat \<Rightarrow> char" where
  "digit_char n = ''0123456789'' ! n"

fun dec_nat :: "nat \<Rightarrow> string" where
  "dec_nat n = (if n < 10 then [digit_char n] else dec_nat (n div 10) @ [digit_char (n mod 10)])"

declare dec_nat.simps [simp del]

definition fmt_d :: "int \<Rightarrow> string" where
  "fmt_d i = (if i < 0 then CHR ''-'' # dec_nat (nat (- i)) else dec_nat (nat i))"

definition fmt_0d :: "nat \<Rightarrow> nat \<Rightarrow> string" where
  "fmt_0d w n = replicate (w - length (dec_nat n)) CHR ''0'' @ dec_nat n"

definition newline :: char where "newline = CHR 0x0A"

text \<open>\<open>fmt.Sprint\<close> and \<open>fmt.Sprintln\<close> on string operands: \<open>Sprint\<close> adds no space
  between two strings, \<open>Sprintln\<close> separates the operands by one space and ends the
  line. \<open>fmt.Sprintf\<close> is taken as a parameter where it is called.\<close>

definition Sprint :: "string list \<Rightarrow> string" where
  "Sprint v = concat v"

fun join_sp :: "string list \<Rightarrow> string" where
  "join_sp [] = []"
| "join_sp [x] = x"
| "join_sp (x # y # ys) = x @ CHR '' '' # join_sp (y # ys)"

definition Sprintln :: "string list \<Rightarrow> string" where
  "Sprintln v = join_sp v @ [newline]"

text \<open>\<open>path.Split\<close>: the second result is what follows the last slash.\<close>

definition path_Split_file :: "string \<Rightarrow> string" where
  "path_Split_file p = rev (takeWhile (\<lambda>c. c \<noteq> CHR ''/'') (rev p))"

text \<open>The value of \<open>time.Now()\<close>, as \<open>t.Date()\<close>, \<open>t.Clock()\<close> and \<open>t.Nanosecond()\<close>
  read it.\<close>

record gotime =
  year :: int
  month :: nat
  day :: nat
  hour :: nat
  minute :: nat
  second :: nat
  nanosecond :: nat

text \<open>\<open>runtime.Caller(depth)\<close> together with \<open>runtime.FuncForPC(pc).Name()\<close>: the
  function name, the file and the line of the frame, or \<open>None\<close> when \<open>ok\<close> is false.\<close>

type_synonym caller = "int \<Rightarrow> (string \<times> string \<times> int) option"

subsection \<open>The Logger\<close>

text \<open>The destination \<open>out\<close> is an \<open>io.WriteCloser\<close> of the caller; it is modelled by
  what it has received. The results of \<open>Write\<close> and \<open>Close\<close> are discarded by the logger.\<close>

record Sink =
  written :: "string list"
  closed :: bool

definition Write :: "Sink \<Rightarrow> string \<Rightarrow> Sink" where
  "Write k b = k\<lparr>written := written k @ [b]\<rparr>"

definition Close_sink :: "Sink \<Rightarrow> Sink" where
  "Close_sink k = k\<lparr>closed := True\<rparr>"

text \<open>The struct \<open>Logger\<close>. The channel \<open>buf\<close> is the list of the records waiting in it,
  oldest first; \<open>isClosed\<close> is unbuffered, so its state is whether a sender is waiting
  on it. The type \<open>Hooks\<close> is declared outside this file: the field \<open>fired\<close> keeps the
  calls \<open>hooks.Fire(name, content)\<close> that were started. The rotation delegate
  \<open>*RotateLogger\<close> is declared outside this file too: its state is the type parameter,
  the pointer is \<open>None\<close> when nil, and its methods are parameters of the functions that
  call them.\<close>

record 'r Logger =
  prefix :: string
  flag :: int
  Level :: int
  out :: Sink
  buf :: "string list"
  isClosed :: bool
  levelStats :: "64 word list"
  enableCallFuncDepth :: bool
  callFuncDepth :: int
  fired :: "(string \<times> string) list"
  rotate :: bool
  rotateLogger :: "'r option"

definition New :: "Sink \<Rightarrow> string \<Rightarrow> int \<Rightarrow> 'r Logger" where
  "New k p f =
     \<lparr>prefix = p, flag = f, Level = 1, out = k, buf = [], isClosed = False,
      levelStats = replicate levelStats_len 0, enableCallFuncDepth = False,
      callFuncDepth = 0, fired = [], rotate = False, rotateLogger = None\<rparr>"

text \<open>\<open>NewRotate\<close>: the result of \<open>NewRotateLogger\<close> and the file \<open>rl.logf\<close> of the
  delegate are parameters. No channel is made; nothing reads \<open>buf\<close> in rotation mode.\<close>

definition NewRotate :: "error + 'r \<Rightarrow> ('r \<Rightarrow> Sink) \<Rightarrow> string \<Rightarrow> error + 'r Logger" where
  "NewRotate res logf p =
     (case res of
        Inl err \<Rightarrow> Inl err
      | Inr rl \<Rightarrow>
          Inr \<lparr>prefix = p, flag = Ldefault, Level = 1, out = logf rl, buf = [],
               isClosed = False, levelStats = replicate levelStats_len 0,
               enableCallFuncDepth = False, callFuncDepth = 0, fired = [],
               rotate = True, rotateLogger = Some rl\<rparr>)"

definition formatHeader2 :: "caller \<Rightarrow> 'r Logger \<Rightarrow> gotime \<Rightarrow> int \<Rightarrow> string \<Rightarrow> panic_value + string" where
  "formatHeader2 clr l t lvl reqId =
     (let date = (if flag l AND (Ldate OR Ltime OR Lmicroseconds) \<noteq> 0 \<and> flag l AND Ldate \<noteq> 0
                  then ''['' @ fmt_d (year t) @ ''-'' @ fmt_0d 2 (month t) @ ''-''
                       @ fmt_0d 2 (day t) @ '' ''
                  else '''');
          clock = (if flag l AND (Ldate OR Ltime OR Lmicroseconds) \<noteq> 0
                      \<and> flag l AND (Ltime OR Lmicroseconds) \<noteq> 0
                   then fmt_0d 2 (hour t) @ '':'' @ fmt_0d 2 (minute t) @ '':''
                        @ fmt_0d 2 (second t)
                        @ (if flag l AND Lmicroseconds \<noteq> 0
                           then ''.'' @ fmt_0d 6 (nanosecond t div 1000) else '''')
                        @ ''] ''
                   else '''');
          reqid = (if reqId \<noteq> '''' then ''['' @ reqId @ '']'' else '''')
      in case (if flag l AND Llevel \<noteq> 0 then index_go levels lvl else Inr '''') of
           Inl p \<Rightarrow> Inl p
         | Inr level \<Rightarrow>
             (let source =
                    (if enableCallFuncDepth l
                     then (case clr (callFuncDepth l) of
                             None \<Rightarrow> ''''
                           | Some (fn, file, lineno) \<Rightarrow>
                               fn @ '':'' @ path_Split_file file @ '':'' @ fmt_d lineno @ '' '')
                     else '''')
              in Inr (prefix l @ date @ clock @ reqid @ level @ source)))"

type_synonym 'r rl_Output =
  "string \<Rightarrow> int \<Rightarrow> int \<Rightarrow> string \<Rightarrow> 'r option \<Rightarrow> error option outcome \<times> 'r option"

text \<open>\<open>Close\<close> acts in rotation mode only.\<close>

definition Close :: "('r option \<Rightarrow> 'r option) \<Rightarrow> 'r Logger \<Rightarrow> 'r Logger" where
  "Close rl_Close l =
     (if rotate l then l\<lparr>rotateLogger := rl_Close (rotateLogger l)\<rparr> else l)"

text \<open>The line ending that \<open>Output\<close> adds.\<close>

definition line_end :: "string \<Rightarrow> string" where
  "line_end s = (if length s > 0 \<and> s ! (length s - 1) \<noteq> newline then [newline] else [])"

text \<open>\<open>Output\<close>. The delegate's \<open>Output\<close> is the parameter \<open>rl_Output\<close>. The send
  \<open>l.buf <- content\<close> proceeds when the channel holds fewer than \<open>BUFFER_SIZE\<close> records
  and waits otherwise.\<close>

definition Output ::
  "'r rl_Output \<Rightarrow> gotime \<Rightarrow> caller
     \<Rightarrow> 'r Logger \<Rightarrow> string \<Rightarrow> int \<Rightarrow> int \<Rightarrow> string \<Rightarrow> error option outcome \<times> 'r Logger" where
  "Output rl_Output now clr l reqId lvl calldepth s =
     (if rotate l
      then (case rl_Output reqId lvl calldepth s (rotateLogger l) of
              (res, r') \<Rightarrow> (res, l\<lparr>rotateLogger := r'\<rparr>))
      else if lvl < Level l then (Returned None, l)
      else if \<not> (0 \<le> lvl \<and> lvl < int levelStats_len)
      then (Panics (IndexOutOfRange lvl levelStats_len), l)
      else
        (let l1 = l\<lparr>levelStats := (levelStats l)[nat lvl := levelStats l ! nat lvl + 1]\<rparr>
         in case formatHeader2 clr l1 now lvl reqId of
              Inl p \<Rightarrow> (Panics p, l1)
            | Inr hdr \<Rightarrow>
                (let content = hdr @ s @ line_end s
                 in case index_go level_flags lvl of
                      Inl p \<Rightarrow> (Panics p, l1)
                    | Inr name \<Rightarrow>
                        (let l2 = l1\<lparr>fired := fired l1 @ [(name, content)]\<rparr>
                         in if length (buf l2) < BUFFER_SIZE
                            then (Returned None, l2\<lparr>buf := buf l2 @ [content]\<rparr>)
                            else (Blocks content, l2)))))"

subsection \<open>The consumer \<open>RealWrite\<close>\<close>

text \<open>One turn of the outer \<open>select\<close>. The first case needs a record in the channel,
  the second a sender on \<open>isClosed\<close>; \<open>None\<close> says that the case cannot be taken.\<close>

definition RealWrite_recv :: "'r Logger \<Rightarrow> 'r Logger option" where
  "RealWrite_recv l =
     (case buf l of
        [] \<Rightarrow> None
      | b # bs \<Rightarrow> Some (l\<lparr>buf := bs, out := Write (out l) b\<rparr>))"

text \<open>The inner loop: receive without waiting until the channel is empty.\<close>

fun drain :: "Sink \<Rightarrow> string list \<Rightarrow> Sink" where
  "drain k [] = k"
| "drain k (b # bs) = drain (Write k b) bs"

definition RealWrite_closed :: "'r Logger \<Rightarrow> 'r Logger option" where
  "RealWrite_closed l =
     (if isClosed l
      then Some (l\<lparr>isClosed := False, buf := [], out := Close_sink (drain (out l) (buf l))\<rparr>)
      else None)"

subsection \<open>Setting the level\<close>

definition SetOutputLevel :: "(int \<Rightarrow> 'r option \<Rightarrow> 'r option) \<Rightarrow> 'r Logger \<Rightarrow> int \<Rightarrow> 'r Logger" where
  "SetOutputLevel rl_SetOutputLevel l lvl =
     (let l1 = l\<lparr>Level := lvl\<rparr>
      in if rotate l1 then l1\<lparr>rotateLogger := rl_SetOutputLevel lvl (rotateLogger l1)\<rparr> else l1)"

text \<open>The \<open>switch\<close> of \<open>SetOutputLevelString\<close>.\<close>

definition level_of_string :: "string \<Rightarrow> int" where
  "level_of_string lv =
     (if lv = ''debug'' \<or> lv = ''DEBUG'' then Ldebug
      else if lv = ''info'' \<or> lv = ''INFO'' then Linfo
      else if lv = ''warn'' \<or> lv = ''WARN'' then Lwarn
      else if lv = ''error'' \<or> lv = ''ERROR'' then Lerror
      else Linfo)"

definition SetOutputLevelString :: "(int \<Rightarrow> 'r option \<Rightarrow> 'r option) \<Rightarrow> 'r Logger \<Rightarrow> string \<Rightarrow> 'r Logger" where
  "SetOutputLevelString rl_SetOutputLevel l lv =
     (let level = level_of_string lv;
          l1 = l\<lparr>Level := level\<rparr>
      in if rotate l1 then l1\<lparr>rotateLogger := rl_SetOutputLevel level (rotateLogger l1)\<rparr> else l1)"

subsection \<open>The entry points\<close>

text \<open>What follows a call of \<open>Output\<close> whose result is dropped runs only when that
  call returns.\<close>

fun and_then :: "'a outcome \<Rightarrow> 'b outcome \<Rightarrow> 'b outcome" where
  "and_then (Returned x) nxt = nxt"
| "and_then (Panics p) nxt = Panics p"
| "and_then (Exits n) nxt = Exits n"
| "and_then (Blocks c) nxt = Blocks c"

definition Info :: "'r rl_Output \<Rightarrow> gotime \<Rightarrow> caller \<Rightarrow> 'r Logger \<Rightarrow> string list \<Rightarrow> unit outcome \<times> 'r Logger" where
  "Info rl_Output now clr l v =
     (if Linfo < Level l then (Returned (), l)
      else (case Output rl_Output now clr l [] Linfo 2 (Sprintln v) of
              (res, l') \<Rightarrow> (and_then res (Returned ()), l')))"

definition Fatal :: "'r rl_Output \<Rightarrow> gotime \<Rightarrow> caller \<Rightarrow> 'r Logger \<Rightarrow> string list \<Rightarrow> unit outcome \<times> 'r Logger" where
  "Fatal rl_Output now clr l v =
     (case Output rl_Output now clr l [] Lfatal 2 (Sprint v) of
        (res, l') \<Rightarrow> (and_then res (Exits 1), l'))"

definition Fatalf ::
  "(string \<Rightarrow> 'v list \<Rightarrow> string) \<Rightarrow> 'r rl_Output \<Rightarrow> gotime \<Rightarrow> caller \<Rightarrow> 'r Logger \<Rightarrow> string \<Rightarrow> 'v list
     \<Rightarrow> unit outcome \<times> 'r Logger" where
  "Fatalf Sprintf rl_Output now clr l format v =
     (case Output rl_Output now clr l [] Lfatal 2 (Sprintf format v) of
        (res, l') \<Rightarrow> (and_then res (Exits 1), l'))"

definition Fatalln :: "'r rl_Output \<Rightarrow> gotime \<Rightarrow> caller \<Rightarrow> 'r Logger \<Rightarrow> string list \<Rightarrow> unit outcome \<times> 'r Logger" where
  "Fatalln rl_Output now clr l v =
     (case Output rl_Output now clr l [] Lfatal 2 (Sprintln v) of
        (res, l') \<Rightarrow> (and_then res (Exits 1), l'))"

definition Panic :: "'r rl_Output \<Rightarrow> gotime \<Rightarrow> caller \<Rightarrow> 'r Logger \<Rightarrow> string list \<Rightarrow> unit outcome \<times> 'r Logger" where
  "Panic rl_Output now clr l v =
     (let s = Sprint v
      in case Output rl_Output now clr l [] Lpanic 2 s of
           (res, l') \<Rightarrow> (and_then res (Panics (PanicString s)), l'))"



subsection \<open>Concrete inputs\<close>

definition example_time :: gotime where
  "example_time =
     \<lparr>year = 2024, month = 1, day = 2, hour = 3, minute = 4, second = 5, nanosecond = 6789\<rparr>"

definition no_caller :: caller where
  "no_caller depth = None"

definition no_delegate :: "unit rl_Output" where
  "no_delegate reqId lvl calldepth s r = (Returned None, r)"

definition empty_sink :: Sink where
  "empty_sink = \<lparr>written = [], closed = False\<rparr>"

definition example_logger :: "unit Logger" where
  "example_logger = New empty_sink ''svc '' 0"

text \<open>A delegate that keeps the calls of its \<open>Output\<close>, and a Logger in rotation mode
  with the threshold Error.\<close>

definition recording_delegate :: "(string \<times> int \<times> int \<times> string) list rl_Output" where
  "recording_delegate reqId lvl calldepth s r =
     (Returned None, map_option (\<lambda>calls. calls @ [(reqId, lvl, calldepth, s)]) r)"

definition rotate_logger :: "(string \<times> int \<times> int \<times> string) list Logger" where
  "rotate_logger =
     SetOutputLevel (\<lambda>lvl r. r) (projr (NewRotate (Inr []) (\<lambda>rl. empty_sink) ''svc '')) Lerror"

text \<open>The Logger of the scenario: flags date, time and level, prefix \<open>"svc "\<close>,
  threshold Info.\<close>

definition scenario_logger :: "Sink \<Rightarrow> unit Logger" where
  "scenario_logger k =
     SetOutputLevel (\<lambda>lvl r. r) (New k ''svc '' (Ldate OR Ltime OR Llevel)) Linfo"

text \<open>The pattern of the scenario, \<open>YYYY\<close>, \<open>MM\<close> and so on: a string of \<open>n\<close> decimal
  digits.\<close>

definition spec_digits :: "nat \<Rightarrow> string \<Rightarrow> bool" where
  "spec_digits n s = (length s = n \<and> list_all (\<lambda>c. c \<in> set ''0123456789'') s)"

section \<open>Properties\<close>

subsection \<open>Shared lemmas\<close>

lemma formatHeader2_levelStats:
  "formatHeader2 clr (l\<lparr>levelStats := x\<rparr>) t lvl reqId = formatHeader2 clr l t lvl reqId"
  by (simp add: formatHeader2_def Let_def split: sum.split)

lemma index_go_levels: "0 \<le> lvl \<Longrightarrow> lvl < 7 \<Longrightarrow> index_go levels lvl = Inr (levels ! nat lvl)"
  by (simp add: index_go_def levels_def)

lemma index_go_level_flags:
  "0 \<le> lvl \<Longrightarrow> lvl < 7 \<Longrightarrow> index_go level_flags lvl = Inr (level_flags ! nat lvl)"
  by (simp add: index_go_def level_flags_def)

lemma formatHeader2_returns:
  "0 \<le> lvl \<Longrightarrow> lvl < 7 \<Longrightarrow> \<exists>h. formatHeader2 clr l t lvl reqId = Inr h"
  by (simp add: formatHeader2_def Let_def index_go_levels)


lemma Output_index_fault:
  "\<not> rotate l \<Longrightarrow> \<not> lvl < Level l \<Longrightarrow> \<not> (0 \<le> lvl \<and> lvl < 6)
   \<Longrightarrow> Output rl now clr l reqId lvl d s = (Panics (IndexOutOfRange lvl 6), l)"
  by (simp add: Output_def levelStats_len_def)

lemma Output_accepted:
  assumes "\<not> rotate l" "\<not> lvl < Level l" "0 \<le> lvl" "lvl < 6"
    and "formatHeader2 clr l now lvl reqId = Inr h"
  shows "Output rl now clr l reqId lvl d s =
     (if length (buf l) < BUFFER_SIZE
      then (Returned None,
            l\<lparr>levelStats := (levelStats l)[nat lvl := levelStats l ! nat lvl + 1],
              fired := fired l @ [(level_flags ! nat lvl, h @ s @ line_end s)],
              buf := buf l @ [h @ s @ line_end s]\<rparr>)
      else (Blocks (h @ s @ line_end s),
            l\<lparr>levelStats := (levelStats l)[nat lvl := levelStats l ! nat lvl + 1],
              fired := fired l @ [(level_flags ! nat lvl, h @ s @ line_end s)]\<rparr>))"
  using assms
  by (simp add: Output_def levelStats_len_def formatHeader2_levelStats index_go_level_flags Let_def)

lemma example_logger_simps:
  "prefix example_logger = ''svc ''" "flag example_logger = 0" "Level example_logger = 1"
  "out example_logger = empty_sink" "buf example_logger = []" "\<not> isClosed example_logger"
  "levelStats example_logger = [0, 0, 0, 0, 0, 0]" "\<not> enableCallFuncDepth example_logger"
  "fired example_logger = []" "\<not> rotate example_logger"
  by (simp_all add: example_logger_def New_def levelStats_len_def numeral_eq_Suc)

lemma example_header: "formatHeader2 clr example_logger t lvl [] = Inr ''svc ''"
  by (simp add: formatHeader2_def example_logger_simps)

lemma example_queued:
  "Output no_delegate example_time no_caller example_logger [] Linfo 2 ''a'' =
     (Returned None,
      example_logger\<lparr>levelStats := [0, 0, 1, 0, 0, 0],
        fired := [(''info'', ''svc a'' @ [newline])], buf := [''svc a'' @ [newline]]\<rparr>)"
  by (simp add: Output_accepted [OF _ _ _ _ example_header] example_logger_simps Linfo_def
      BUFFER_SIZE_def level_flags_def line_end_def newline_def)



text \<open>The consumer's first case writes the oldest record of the channel as it is.\<close>

lemma RealWrite_recv_writes:
  "buf l = b # bs \<Longrightarrow>
   \<exists>l'. RealWrite_recv l = Some l' \<and> written (out l') = written (out l) @ [b] \<and> buf l' = bs"
  by (simp add: RealWrite_recv_def Write_def)

lemma rotate_logger_simps:
  "rotate rotate_logger" "Level rotate_logger = Lerror" "rotateLogger rotate_logger = Some []"
  "levelStats rotate_logger = [0, 0, 0, 0, 0, 0]" "buf rotate_logger = []"
  by (simp_all add: rotate_logger_def SetOutputLevel_def NewRotate_def Let_def levelStats_len_def
      numeral_eq_Suc)

lemma scenario_logger_simps:
  "prefix (scenario_logger k) = ''svc ''" "flag (scenario_logger k) = 67"
  "Level (scenario_logger k) = Linfo" "out (scenario_logger k) = k"
  "buf (scenario_logger k) = []" "\<not> enableCallFuncDepth (scenario_logger k)"
  "\<not> rotate (scenario_logger k)"
  by (simp_all add: scenario_logger_def SetOutputLevel_def New_def Let_def Ldate_def Ltime_def
      Llevel_def)

subsection \<open>Shutdown\<close>

text \<open>The consumer's second case, once a sender is on \<open>isClosed\<close>, writes every record
  still in the channel, in order, and closes the destination.\<close>

lemma drain_written: "written (drain k bs) = written k @ bs"
  by (induction bs arbitrary: k) (simp_all add: Write_def)

lemma drain_closed: "closed (drain k bs) = closed k"
  by (induction bs arbitrary: k) (simp_all add: Write_def)

lemma RealWrite_closed_drains:
  "isClosed l \<Longrightarrow>
   \<exists>l'. RealWrite_closed l = Some l' \<and> written (out l') = written (out l) @ buf l
        \<and> closed (out l') \<and> buf l' = []"
  by (simp add: RealWrite_closed_def Close_sink_def drain_written)

lemma Close_not_rotate: "\<not> rotate l \<Longrightarrow> Close rl_Close l = l"
  by (simp add: Close_def)

text \<open>C1. The claim: on a non-rotation Logger \<open>Close\<close> signals the consumer, which
  writes every queued record to the destination and closes it before \<open>Close\<close> returns.
  The code at a concrete input: one record is accepted by \<open>New(out, "svc ", 0)\<close> and
  waits in the channel; \<open>Close\<close> then returns the Logger as it was, with the record
  still queued, nothing written, the destination open, and no sender on \<open>isClosed\<close>, so
  that the consumer's shutdown case cannot be taken.\<close>

theorem Close_leaves_queue:
  "fst (Output no_delegate example_time no_caller example_logger [] Linfo 2 ''a'') = Returned None \<and>
   buf (snd (Output no_delegate example_time no_caller example_logger [] Linfo 2 ''a''))
     = [''svc a'' @ [newline]] \<and>
   Close (\<lambda>r. r) (snd (Output no_delegate example_time no_caller example_logger [] Linfo 2 ''a''))
     = snd (Output no_delegate example_time no_caller example_logger [] Linfo 2 ''a'') \<and>
   written (out (Close (\<lambda>r. r)
     (snd (Output no_delegate example_time no_caller example_logger [] Linfo 2 ''a'')))) = [] \<and>
   \<not> closed (out (Close (\<lambda>r. r)
     (snd (Output no_delegate example_time no_caller example_logger [] Linfo 2 ''a'')))) \<and>
   RealWrite_closed (Close (\<lambda>r. r)
     (snd (Output no_delegate example_time no_caller example_logger [] Linfo 2 ''a''))) = None"
  by (simp add: example_queued Close_def RealWrite_closed_def example_logger_simps empty_sink_def)

subsection \<open>The per-level counters\<close>

text \<open>For the levels 0 to 5 an accepted record adds one to its own counter and leaves
  the other five alone.\<close>

lemma Output_counts_once:
  assumes "\<not> rotate l" "\<not> lvl < Level l" "0 \<le> lvl" "lvl < 6" "length (levelStats l) = 6"
  shows "levelStats (snd (Output rl now clr l reqId lvl d s)) ! nat lvl
           = levelStats l ! nat lvl + 1"
    and "i \<noteq> nat lvl \<Longrightarrow>
         levelStats (snd (Output rl now clr l reqId lvl d s)) ! i = levelStats l ! i"
proof -
  obtain h where h: "formatHeader2 clr l now lvl reqId = Inr h"
    using formatHeader2_returns [of lvl clr l now reqId] assms by auto
  have st: "levelStats (snd (Output rl now clr l reqId lvl d s))
              = (levelStats l)[nat lvl := levelStats l ! nat lvl + 1]"
    using Output_accepted [OF assms(1-4) h, of rl d s] by simp
  show "levelStats (snd (Output rl now clr l reqId lvl d s)) ! nat lvl
          = levelStats l ! nat lvl + 1"
    using assms by (simp add: st)
  show "i \<noteq> nat lvl \<Longrightarrow>
        levelStats (snd (Output rl now clr l reqId lvl d s)) ! i = levelStats l ! i"
    by (simp add: st)
qed

text \<open>C2. The claim: an accepted record at any level from Debug (1) to Fatal (6)
  increments its counter, and the access to the array is in bounds. The code at
  level Fatal on \<open>New(out, "svc ", 0)\<close>: the index 6 is outside \<open>[6]int64\<close>, the call
  panics at the increment and the Logger is left as it was.\<close>

theorem Output_Lfatal_index_fault:
  "Output no_delegate example_time no_caller example_logger [] Lfatal 2 ''x''
     = (Panics (IndexOutOfRange 6 6), example_logger)"
  by (simp add: Output_index_fault example_logger_simps Lfatal_def)

subsection \<open>The severity filter\<close>



subsection \<open>Fatal and Panic\<close>

text \<open>\<open>Fatal\<close> ends the process with status 1 once \<open>Output\<close> has returned. On a
  non-rotation Logger whose threshold lets level 6 pass, \<open>Output\<close> does not return.\<close>

lemma Fatal_after_Output:
  "fst (Output rl now clr l [] Lfatal 2 (Sprint v)) = Returned e \<Longrightarrow>
   Fatal rl now clr l v = (Exits 1, snd (Output rl now clr l [] Lfatal 2 (Sprint v)))"
  by (simp add: Fatal_def case_prod_beta)

lemma Fatal_faults:
  "\<not> rotate l \<Longrightarrow> Level l \<le> Lfatal \<Longrightarrow>
   Fatal rl now clr l v = (Panics (IndexOutOfRange 6 6), l)"
  by (simp add: Fatal_def Output_index_fault Lfatal_def)

text \<open>C8. The claim: \<open>Fatal\<close>, \<open>Fatalf\<close> and \<open>Fatalln\<close> hand the record to the pipeline
  and then end the process. The code on \<open>New(out, "svc ", 0)\<close>: \<open>Output\<close> at level 6
  panics at the counter access, so no record is queued and \<open>os.Exit(1)\<close> is not
  reached.\<close>

theorem Fatal_index_fault:
  "Fatal no_delegate example_time no_caller example_logger [''x'']
     = (Panics (IndexOutOfRange 6 6), example_logger) \<and>
   Fatalf (\<lambda>format v. format) no_delegate example_time no_caller example_logger ''x'' []
     = (Panics (IndexOutOfRange 6 6), example_logger) \<and>
   Fatalln no_delegate example_time no_caller example_logger [''x'']
     = (Panics (IndexOutOfRange 6 6), example_logger)"
  by (simp add: Fatal_def Fatalf_def Fatalln_def Output_index_fault example_logger_simps Lfatal_def)




text \<open>Whatever the mode, the panic is raised once \<open>Output\<close> has returned, and its value
  is the message that was passed to \<open>Output\<close>.\<close>

lemma Panic_after_Output:
  "fst (Output rl now clr l [] Lpanic 2 (Sprint v)) = Returned e \<Longrightarrow>
   Panic rl now clr l v
     = (Panics (PanicString (Sprint v)), snd (Output rl now clr l [] Lpanic 2 (Sprint v)))"
  by (simp add: Panic_def Let_def case_prod_beta)

subsection \<open>The line ending\<close>




subsection \<open>Rotation mode\<close>

text \<open>The wording of C5 fails on a Logger in rotation mode with the threshold Error: a
  Debug record, below the threshold, still reaches the delegate, and an Error record
  leaves the Logger's counters at zero.\<close>

theorem Output_rotate_counterexample:
  "rotate rotate_logger \<and> Level rotate_logger = Lerror \<and> Ldebug < Lerror \<and>
   rotateLogger (snd (Output recording_delegate example_time no_caller rotate_logger [] Ldebug 2 ''x''))
     = Some [([], Ldebug, 2, ''x'')] \<and>
   levelStats rotate_logger = [0, 0, 0, 0, 0, 0] \<and>
   levelStats (snd (Output recording_delegate example_time no_caller rotate_logger [] Lerror 2 ''x''))
     = [0, 0, 0, 0, 0, 0]"
  by (simp add: Output_def rotate_logger_simps recording_delegate_def Ldebug_def Lerror_def)

text \<open>C5, amended. In rotation mode every call of \<open>Output\<close> forwards its four arguments
  to the delegate's output method at once, before any severity filter or counter of
  the Logger itself, and returns what the delegate returns; the Logger's counters, its
  channel, its hook calls and its destination are left as they were.\<close>

theorem Output_rotate_forwards:
  assumes "rotate l"
  shows "Output rl now clr l reqId lvl d s =
           (fst (rl reqId lvl d s (rotateLogger l)),
            l\<lparr>rotateLogger := snd (rl reqId lvl d s (rotateLogger l))\<rparr>) \<and>
         levelStats (snd (Output rl now clr l reqId lvl d s)) = levelStats l \<and>
         buf (snd (Output rl now clr l reqId lvl d s)) = buf l \<and>
         fired (snd (Output rl now clr l reqId lvl d s)) = fired l \<and>
         out (snd (Output rl now clr l reqId lvl d s)) = out l"
  using assms by (simp add: Output_def split: prod.split)

theorem Output_rotate_forwards_witness:
  "rotate rotate_logger \<and>
   Output recording_delegate example_time no_caller rotate_logger [] Ldebug 2 ''x''
     = (Returned None, rotate_logger\<lparr>rotateLogger := Some [([], Ldebug, 2, ''x'')]\<rparr>)"
  using Output_rotate_forwards
    [of rotate_logger recording_delegate example_time no_caller "[]" Ldebug 2 "''x''"]
  by (simp add: rotate_logger_simps recording_delegate_def)

subsection \<open>The level by name\<close>

text \<open>The wording of C6 fails on the mixed-case name \<open>"Debug"\<close>, which sets Info.\<close>

theorem SetOutputLevelString_mixed_case_counterexample:
  "Level (SetOutputLevelString (\<lambda>lvl r. r) example_logger ''Debug'') = Linfo \<and> Linfo \<noteq> Ldebug"
  by (simp add: SetOutputLevelString_def level_of_string_def Let_def Linfo_def Ldebug_def)

text \<open>C6, amended. \<open>SetOutputLevelString\<close> recognises each of the names debug, info,
  warn and error in two spellings, all lower case and all upper case: the threshold
  becomes Debug, Warn or Error exactly for the two spellings of that name, and Info for
  every other string, the mixed-case spellings included.\<close>

theorem SetOutputLevelString_names:
  "(Level (SetOutputLevelString f l lv) = Ldebug) = (lv \<in> {''debug'', ''DEBUG''}) \<and>
   (Level (SetOutputLevelString f l lv) = Lwarn) = (lv \<in> {''warn'', ''WARN''}) \<and>
   (Level (SetOutputLevelString f l lv) = Lerror) = (lv \<in> {''error'', ''ERROR''}) \<and>
   (Level (SetOutputLevelString f l lv) = Linfo)
      = (lv \<notin> {''debug'', ''DEBUG'', ''warn'', ''WARN'', ''error'', ''ERROR''})"
  by (simp add: SetOutputLevelString_def level_of_string_def Let_def Linfo_def Ldebug_def
      Lwarn_def Lerror_def)

subsection \<open>The error result\<close>



subsection \<open>The header\<close>

lemma digit_char_digit: "n < 10 \<Longrightarrow> digit_char n \<in> set ''0123456789''"
  unfolding digit_char_def by (rule nth_mem) simp

lemma dec_nat_digits: "list_all (\<lambda>c. c \<in> set ''0123456789'') (dec_nat n)"
proof (induction n rule: dec_nat.induct)
  case (1 n)
  show ?case
  proof (cases "n < 10")
    case True
    then show ?thesis
      using digit_char_digit [of n] by (subst dec_nat.simps) simp
  next
    case False
    then show ?thesis
      using 1 digit_char_digit [of "n mod 10"] by (subst dec_nat.simps) simp
  qed
qed

lemma dec_nat_length1: "n < 10 \<Longrightarrow> length (dec_nat n) = 1"
  by (subst dec_nat.simps) simp

lemma dec_nat_length2: "10 \<le> n \<Longrightarrow> n < 100 \<Longrightarrow> length (dec_nat n) = 2"
  by (subst dec_nat.simps) (simp add: dec_nat_length1)

lemma dec_nat_length3: "100 \<le> n \<Longrightarrow> n < 1000 \<Longrightarrow> length (dec_nat n) = 3"
  by (subst dec_nat.simps) (simp add: dec_nat_length2)

lemma dec_nat_length4: "1000 \<le> n \<Longrightarrow> n < 10000 \<Longrightarrow> length (dec_nat n) = 4"
  by (subst dec_nat.simps) (simp add: dec_nat_length3)

lemma fmt_0d_2_digits: "n < 100 \<Longrightarrow> spec_digits 2 (fmt_0d 2 n)"
proof (cases "n < 10")
  case True
  then show ?thesis
    using dec_nat_digits [of n] by (simp add: spec_digits_def fmt_0d_def dec_nat_length1)
next
  case False
  assume "n < 100"
  with False show ?thesis
    using dec_nat_digits [of n] by (simp add: spec_digits_def fmt_0d_def dec_nat_length2)
qed

lemma fmt_d_year_digits: "1000 \<le> y \<Longrightarrow> y \<le> 9999 \<Longrightarrow> spec_digits 4 (fmt_d y)"
  using dec_nat_digits [of "nat y"] by (simp add: spec_digits_def fmt_d_def dec_nat_length4)

lemma flag_bits:
  "(67::int) AND (Ldate OR Ltime OR Lmicroseconds) \<noteq> 0" "(67::int) AND Ldate \<noteq> 0"
  "(67::int) AND (Ltime OR Lmicroseconds) \<noteq> 0" "(67::int) AND Lmicroseconds = 0"
  "(67::int) AND Llevel \<noteq> 0"
  by (simp_all add: Ldate_def Ltime_def Lmicroseconds_def Llevel_def)

lemma formatHeader2_all_segments:
  assumes "flag l = Ldate OR Ltime OR Llevel" "reqId \<noteq> []" "0 \<le> lvl" "lvl < 7"
    and "enableCallFuncDepth l" "clr (callFuncDepth l) = Some (fn, file, lineno)"
  shows "formatHeader2 clr l t lvl reqId =
     Inr (prefix l
          @ (''['' @ fmt_d (year t) @ ''-'' @ fmt_0d 2 (month t) @ ''-'' @ fmt_0d 2 (day t) @ '' '')
          @ (fmt_0d 2 (hour t) @ '':'' @ fmt_0d 2 (minute t) @ '':'' @ fmt_0d 2 (second t) @ ''] '')
          @ (''['' @ reqId @ '']'')
          @ levels ! nat lvl
          @ (fn @ '':'' @ path_Split_file file @ '':'' @ fmt_d lineno @ '' ''))"
proof -
  have f: "flag l = 67"
    using assms(1) by (simp add: Ldate_def Ltime_def Llevel_def)
  show ?thesis
    using assms(2-6) by (simp add: formatHeader2_def Let_def f flag_bits index_go_levels)
qed

lemma index_go_levels_Linfo: "index_go levels Linfo = Inr ''[INFO]''"
  by (simp add: index_go_def levels_def Linfo_def)

lemma scenario_header:
  "formatHeader2 clr (scenario_logger k) t Linfo [] =
     Inr (''svc ['' @ fmt_d (year t) @ ''-'' @ fmt_0d 2 (month t) @ ''-'' @ fmt_0d 2 (day t)
          @ '' '' @ fmt_0d 2 (hour t) @ '':'' @ fmt_0d 2 (minute t) @ '':''
          @ fmt_0d 2 (second t) @ ''] [INFO]'')"
  by (simp add: formatHeader2_def Let_def scenario_logger_simps flag_bits index_go_levels_Linfo)

text \<open>C9. A Logger made with the flags date, time and level, the prefix \<open>"svc "\<close> and
  the threshold Info, on \<open>Info("ready")\<close> at a time whose year has four digits, queues
  the one record \<open>svc [YYYY-MM-DD HH:MM:SS] [INFO]ready\<close> with a single newline at its
  end, and the consumer writes that record to the destination. With these flags the
  header is the prefix, the date, the time, the correlation id, the level tag and the
  caller's site, in this order.\<close>

theorem Info_ready_record:
  assumes "1000 \<le> year now" "year now \<le> 9999" "month now \<le> 12" "day now \<le> 31"
    and "hour now \<le> 23" "minute now \<le> 59" "second now \<le> 59"
  shows "let R = ''svc ['' @ fmt_d (year now) @ ''-'' @ fmt_0d 2 (month now) @ ''-''
               @ fmt_0d 2 (day now) @ '' '' @ fmt_0d 2 (hour now) @ '':''
               @ fmt_0d 2 (minute now) @ '':'' @ fmt_0d 2 (second now)
               @ ''] [INFO]ready'' @ [newline]
     in spec_digits 4 (fmt_d (year now)) \<and> spec_digits 2 (fmt_0d 2 (month now)) \<and>
        spec_digits 2 (fmt_0d 2 (day now)) \<and> spec_digits 2 (fmt_0d 2 (hour now)) \<and>
        spec_digits 2 (fmt_0d 2 (minute now)) \<and> spec_digits 2 (fmt_0d 2 (second now)) \<and>
        fst (Info rl now clr (scenario_logger k) [''ready'']) = Returned () \<and>
        buf (snd (Info rl now clr (scenario_logger k) [''ready''])) = [R] \<and>
        (\<exists>l'. RealWrite_recv (snd (Info rl now clr (scenario_logger k) [''ready''])) = Some l'
              \<and> written (out l') = written k @ [R] \<and> buf l' = []) \<and>
        (\<forall>l t lvl reqId fn file lineno.
           flag l = Ldate OR Ltime OR Llevel \<and> reqId \<noteq> [] \<and> 0 \<le> lvl \<and> lvl < 7 \<and>
           enableCallFuncDepth l \<and> clr (callFuncDepth l) = Some (fn, file, lineno) \<longrightarrow>
           formatHeader2 clr l t lvl reqId =
             Inr (prefix l
                  @ (''['' @ fmt_d (year t) @ ''-'' @ fmt_0d 2 (month t) @ ''-''
                     @ fmt_0d 2 (day t) @ '' '')
                  @ (fmt_0d 2 (hour t) @ '':'' @ fmt_0d 2 (minute t) @ '':''
                     @ fmt_0d 2 (second t) @ ''] '')
                  @ (''['' @ reqId @ '']'')
                  @ levels ! nat lvl
                  @ (fn @ '':'' @ path_Split_file file @ '':'' @ fmt_d lineno @ '' '')))"
proof -
  let ?R = "''svc ['' @ fmt_d (year now) @ ''-'' @ fmt_0d 2 (month now) @ ''-''
               @ fmt_0d 2 (day now) @ '' '' @ fmt_0d 2 (hour now) @ '':''
               @ fmt_0d 2 (minute now) @ '':'' @ fmt_0d 2 (second now)
               @ ''] [INFO]ready'' @ [newline]"
  have digits: "spec_digits 4 (fmt_d (year now))" "spec_digits 2 (fmt_0d 2 (month now))"
    "spec_digits 2 (fmt_0d 2 (day now))" "spec_digits 2 (fmt_0d 2 (hour now))"
    "spec_digits 2 (fmt_0d 2 (minute now))" "spec_digits 2 (fmt_0d 2 (second now))"
    using assms by (simp_all add: fmt_d_year_digits fmt_0d_2_digits)
  have out: "Output rl now clr (scenario_logger k) [] Linfo 2 (Sprintln [''ready'']) =
      (Returned None,
       (scenario_logger k)
         \<lparr>levelStats := (levelStats (scenario_logger k))
             [nat Linfo := levelStats (scenario_logger k) ! nat Linfo + 1],
          fired := fired (scenario_logger k) @ [(level_flags ! nat Linfo, ?R)],
          buf := [?R]\<rparr>)"
  proof -
    have lvl: "\<not> Linfo < Level (scenario_logger k)" "0 \<le> Linfo" "Linfo < 6"
      by (simp_all add: scenario_logger_simps) (simp_all add: Linfo_def)
    show ?thesis
      by (simp add: Output_accepted [OF scenario_logger_simps(7) lvl scenario_header]
          scenario_logger_simps BUFFER_SIZE_def Sprintln_def line_end_def)
  qed
  have info: "fst (Info rl now clr (scenario_logger k) [''ready'']) = Returned ()"
    "buf (snd (Info rl now clr (scenario_logger k) [''ready''])) = [?R]"
    "out (snd (Info rl now clr (scenario_logger k) [''ready''])) = k"
    by (simp_all add: Info_def out scenario_logger_simps)
  have recv: "\<exists>l'. RealWrite_recv (snd (Info rl now clr (scenario_logger k) [''ready''])) = Some l'
              \<and> written (out l') = written k @ [?R] \<and> buf l' = []"
    using RealWrite_recv_writes [OF info(2)] by (simp add: info(3))
  show ?thesis
    unfolding Let_def
    using digits info(1,2) recv formatHeader2_all_segments by blast
qed

theorem Info_ready_record_witness:
  "buf (snd (Info no_delegate example_time no_caller (scenario_logger empty_sink) [''ready'']))
     = [''svc [2024-01-02 03:04:05] [INFO]ready'' @ [newline]]"
proof -
  have t: "1000 \<le> year example_time" "year example_time \<le> 9999" "month example_time \<le> 12"
    "day example_time \<le> 31" "hour example_time \<le> 23" "minute example_time \<le> 59"
    "second example_time \<le> 59"
    by (simp_all add: example_time_def)
  have vals: "fmt_d (year example_time) = ''2024''" "fmt_0d 2 (month example_time) = ''01''"
    "fmt_0d 2 (day example_time) = ''02''" "fmt_0d 2 (hour example_time) = ''03''"
    "fmt_0d 2 (minute example_time) = ''04''" "fmt_0d 2 (second example_time) = ''05''"
    by (simp_all add: example_time_def fmt_d_def fmt_0d_def dec_nat.simps digit_char_def)
  from Info_ready_record [OF t, of no_delegate no_caller empty_sink]
  have "buf (snd (Info no_delegate example_time no_caller (scenario_logger empty_sink) [''ready'']))
     = [''svc ['' @ fmt_d (year example_time) @ ''-'' @ fmt_0d 2 (month example_time) @ ''-''
        @ fmt_0d 2 (day example_time) @ '' '' @ fmt_0d 2 (hour example_time) @ '':''
        @ fmt_0d 2 (minute example_time) @ '':'' @ fmt_0d 2 (second example_time)
        @ ''] [INFO]ready'' @ [newline]]"
    unfolding Let_def by (elim conjE)
  then show ?thesis
    by (simp add: vals)
qed

end
